theory Spec2Isabelle
  imports Main "HOL-Library.Word"
begin

section \<open>The vector of wingmann/containers (vector.h), embedded in HOL\<close>

text \<open>
  The class template \<^verbatim>\<open>vector<Type, Allocator>\<close> keeps a pointer \<^verbatim>\<open>data_\<close> to a
  block obtained from the allocator and two counters \<^verbatim>\<open>size_\<close> and
  \<^verbatim>\<open>capacity_\<close> of type \<^verbatim>\<open>std::size_t\<close>.  The embedding below keeps that shape:

  \<^item> \<^verbatim>\<open>size_type\<close> is a 64-bit word, so every addition, subtraction and
    multiplication of the source wraps as it does in C++;
  \<^item> the memory the allocator hands out is a map from block addresses to blocks; a
    block is a list of slots, a slot is \<open>None\<close> (raw storage, or an object of
    indeterminate value) or \<open>Some x\<close> (a live object of value \<open>x\<close>);
  \<^item> a member function takes the object and the memory and returns an
    \<open>outcome\<close>: it returns normally, it leaves by an exception (with the state at
    the throw, since \<^verbatim>\<open>catch\<close> handlers and callers go on from it), it accesses a
    slot outside every allocated block (\<open>Undefined\<close>), or it never returns
    (\<open>Diverge\<close>);
  \<^item> the element type is described by the two traits the source asks for, and by a
    fuse that says which potentially throwing copy operation, counted from now, throws.
\<close>

subsection \<open>Values, memory and outcomes\<close>

type_synonym size_type = "64 word"

datatype exn = out_of_range | length_error | bad_alloc | copy_exception

datatype ('r, 's) outcome = Ok 'r 's | Throw exn 's | Undefined | Diverge

text \<open>\<^verbatim>\<open>std::is_nothrow_move_constructible<Type>\<close> and
  \<^verbatim>\<open>std::is_copy_constructible<Type>\<close>.\<close>

record elem_traits =
  is_nothrow_move_constructible :: bool
  is_copy_constructible :: bool

text \<open>
  The memory.  \<open>blocks\<close> holds the blocks that are allocated now, \<open>next_addr\<close> the
  address the next allocation returns, \<open>alloc_limit\<close> the largest number of slots one
  allocation can get (a larger request throws \<^verbatim>\<open>std::bad_alloc\<close>).  \<open>leaked\<close>
  counts the objects whose storage was given back while they were still alive.
  \<open>copy_fuse = Some k\<close> says that \<open>k\<close> more potentially throwing copy operations
  succeed and the one after them throws; \<open>None\<close> says that none throws.
\<close>

record 'a world =
  blocks :: "nat \<Rightarrow> 'a option list option"
  next_addr :: nat
  leaked :: nat
  copy_fuse :: "nat option"
  alloc_limit :: nat

text \<open>The data members \<^verbatim>\<open>data_\<close>, \<^verbatim>\<open>size_\<close> and \<^verbatim>\<open>capacity_\<close> of the class
  (the stateless allocator is part of the memory).\<close>

record vector =
  v_data :: "nat option"
  v_size :: size_type
  v_capacity :: size_type

text \<open>
  Modelled from the spec: the class \<^verbatim>\<open>iterators::random_access_iterator<Type>\<close> (the
  header \<^verbatim>\<open>iterators/random_access_iterator.h\<close> is not among the sources), which the
  spec describes as ``a random-access cursor over the contiguous buffer'' that supports
  ``dereference, indexed offset, increment/decrement, and subtraction (distance)''.  The
  source converts pointers into it (\<^verbatim>\<open>return data_;\<close>, \<^verbatim>\<open>iterator(data_ + n)\<close>).
  An iterator is the pointer it wraps: the block it points into (\<open>None\<close> for a pointer
  derived from \<^verbatim>\<open>nullptr\<close>) and the element offset from the start of the block.
  Pointer arithmetic is arithmetic on the offset and wraps; only an access through a
  pointer is checked against the block.
\<close>

datatype iterator = Iter (it_base: "nat option") (it_off: size_type)

definition ptr_add :: "nat option \<Rightarrow> size_type \<Rightarrow> iterator" where
  "ptr_add p n = Iter p n"

text \<open>
  \<^verbatim>\<open>std::distance(first, last)\<close> of the standard library, on random-access iterators,
  is \<^verbatim>\<open>last - first\<close>: the number \<open>n\<close> with \<^verbatim>\<open>first + n == last\<close>, negative when
  \<^verbatim>\<open>last\<close> is before \<^verbatim>\<open>first\<close>.  It is a \<^verbatim>\<open>difference_type\<close>; the source
  stores it in a \<^verbatim>\<open>size_type\<close>, which converts it modulo \<open>2^64\<close>.
\<close>

definition distance :: "iterator \<Rightarrow> iterator \<Rightarrow> size_type" where
  "distance fst_it lst_it = it_off lst_it - it_off fst_it"

subsection \<open>\<^verbatim>\<open>std::allocator_traits\<close>: allocate, deallocate, construct, destroy\<close>

definition allocate_block :: "'a world \<Rightarrow> size_type \<Rightarrow> (nat option, 'a world) outcome" where
  "allocate_block w n =
     (if alloc_limit w < unat n then Throw bad_alloc w
      else Ok (Some (next_addr w))
             (w\<lparr>blocks := (blocks w)(next_addr w \<mapsto> replicate (unat n) None),
                next_addr := Suc (next_addr w)\<rparr>))"

text \<open>
  \<^verbatim>\<open>deallocate(p, n)\<close> gives the block back; the count \<open>n\<close> is not looked at (the
  source passes a stale \<^verbatim>\<open>capacity_\<close> on some paths), and a null pointer is
  accepted.  \<open>None\<close> stands for the release of a pointer that is no allocated block.
\<close>

definition deallocate_block :: "'a world \<Rightarrow> nat option \<Rightarrow> size_type \<Rightarrow> 'a world option" where
  "deallocate_block w p n =
     (case p of
        None \<Rightarrow> Some w
      | Some a \<Rightarrow>
          (case blocks w a of
             None \<Rightarrow> None
           | Some cs \<Rightarrow>
               Some (w\<lparr>blocks := (blocks w)(a := None),
                       leaked := leaked w + length (filter (\<lambda>c. c \<noteq> None) cs)\<rparr>)))"

text \<open>
  Reading and writing the slot \<^verbatim>\<open>p[i]\<close>; the result is \<open>None\<close> when the slot lies in
  no allocated block.  Reading a raw slot inside a block gives the indeterminate content
  \<open>None\<close>, and a copy of it is indeterminate again (the source constructs raw slots from
  themselves before it overwrites them).
\<close>

definition load :: "'a world \<Rightarrow> nat option \<Rightarrow> size_type \<Rightarrow> 'a option option" where
  "load w p i =
     (case p of
        None \<Rightarrow> None
      | Some a \<Rightarrow>
          (case blocks w a of
             None \<Rightarrow> None
           | Some cs \<Rightarrow> if unat i < length cs then Some (cs ! unat i) else None))"

definition store :: "'a world \<Rightarrow> nat option \<Rightarrow> size_type \<Rightarrow> 'a option \<Rightarrow> 'a world option" where
  "store w p i c =
     (case p of
        None \<Rightarrow> None
      | Some a \<Rightarrow>
          (case blocks w a of
             None \<Rightarrow> None
           | Some cs \<Rightarrow>
               if unat i < length cs
               then Some (w\<lparr>blocks := (blocks w)(a \<mapsto> cs[unat i := c])\<rparr>)
               else None))"

text \<open>One potentially throwing copy operation: does it succeed, and the fuse after it.\<close>

definition copy_attempt :: "'a world \<Rightarrow> bool \<times> 'a world" where
  "copy_attempt w =
     (case copy_fuse w of
        None \<Rightarrow> (True, w)
      | Some 0 \<Rightarrow> (False, w\<lparr>copy_fuse := None\<rparr>)
      | Some (Suc k) \<Rightarrow> (True, w\<lparr>copy_fuse := Some k\<rparr>))"

text \<open>\<^verbatim>\<open>construct(allocator_, p + i, c)\<close> with the copy constructor (also a copy
  assignment to \<^verbatim>\<open>p[i]\<close>: the model keeps values only).\<close>

definition construct_copy ::
  "'a world \<Rightarrow> nat option \<Rightarrow> size_type \<Rightarrow> 'a option \<Rightarrow> (unit, 'a world) outcome" where
  "construct_copy w p i c =
     (case copy_attempt w of
        (False, w1) \<Rightarrow> Throw copy_exception w1
      | (True, w1) \<Rightarrow>
          (case store w1 p i c of None \<Rightarrow> Undefined | Some w2 \<Rightarrow> Ok () w2))"

text \<open>\<^verbatim>\<open>construct(allocator_, p + i, std::move(c))\<close>: it cannot throw when the type
  is no-throw-move-constructible, and is like a copy otherwise.\<close>

definition construct_move ::
  "elem_traits \<Rightarrow> 'a world \<Rightarrow> nat option \<Rightarrow> size_type \<Rightarrow> 'a option \<Rightarrow> (unit, 'a world) outcome" where
  "construct_move T w p i c =
     (if is_nothrow_move_constructible T
      then (case store w p i c of None \<Rightarrow> Undefined | Some w2 \<Rightarrow> Ok () w2)
      else construct_copy w p i c)"

definition destroy :: "'a world \<Rightarrow> nat option \<Rightarrow> size_type \<Rightarrow> 'a world option" where
  "destroy w p i = store w p i None"

subsection \<open>Observers\<close>

definition begin_v :: "vector \<Rightarrow> iterator" where
  "begin_v v = Iter (v_data v) 0"

definition end_v :: "vector \<Rightarrow> iterator" where
  "end_v v = ptr_add (v_data v) (v_size v)"

definition size_v :: "vector \<Rightarrow> size_type" where
  "size_v v = v_size v"

definition capacity_v :: "vector \<Rightarrow> size_type" where
  "capacity_v v = v_capacity v"

text \<open>\<^verbatim>\<open>std::numeric_limits<difference_type>::max()\<close>.\<close>

definition max_size :: size_type where
  "max_size = 2 ^ 63 - 1"

text \<open>\<^verbatim>\<open>return (size() != 0) ? data_ : nullptr;\<close>\<close>

definition data_v :: "vector \<Rightarrow> nat option" where
  "data_v v = (if size_v v \<noteq> 0 then v_data v else None)"

text \<open>
  \<^verbatim>\<open>return index < size() ? data_[index] : throw std::out_of_range(...)\<close>.  The
  result is the reference \<^verbatim>\<open>data_[index]\<close>, a pointer to the slot.
\<close>

definition at :: "size_type \<Rightarrow> vector \<Rightarrow> 'a world \<Rightarrow> (iterator, vector \<times> 'a world) outcome" where
  "at index v w =
     (if index < size_v v then Ok (ptr_add (v_data v) index) (v, w)
      else Throw out_of_range (v, w))"

text \<open>What a reference refers to.\<close>

definition deref :: "'a world \<Rightarrow> iterator \<Rightarrow> 'a option option" where
  "deref w r = load w (it_base r) (it_off r)"

text \<open>The sequence of the elements: the slots \<open>[0, size)\<close> of the buffer.\<close>

definition elements :: "vector \<Rightarrow> 'a world \<Rightarrow> 'a option list" where
  "elements v w =
     (case v_data v of
        None \<Rightarrow> []
      | Some a \<Rightarrow> (case blocks w a of None \<Rightarrow> [] | Some cs \<Rightarrow> take (unat (v_size v)) cs))"

subsection \<open>Sequencing\<close>

text \<open>
  \<open>try_catch m f h\<close> runs \<open>m\<close>, goes on with \<open>f\<close> when it returns and with the
  handler \<open>h\<close> when it throws; \<open>checked\<close> goes on after an access that was inside a
  block.
\<close>

definition try_catch ::
  "('r, 's) outcome \<Rightarrow> ('r \<Rightarrow> 's \<Rightarrow> ('q, 't) outcome) \<Rightarrow> (exn \<Rightarrow> 's \<Rightarrow> ('q, 't) outcome)
   \<Rightarrow> ('q, 't) outcome" where
  "try_catch m f h =
     (case m of Ok r s \<Rightarrow> f r s | Throw e s \<Rightarrow> h e s | Undefined \<Rightarrow> Undefined | Diverge \<Rightarrow> Diverge)"

definition checked :: "'s option \<Rightarrow> ('s \<Rightarrow> ('q, 't) outcome) \<Rightarrow> ('q, 't) outcome" where
  "checked m f = (case m of None \<Rightarrow> Undefined | Some s \<Rightarrow> f s)"

subsection \<open>Construction, destruction, \<^verbatim>\<open>clear\<close>\<close>

text \<open>\<^verbatim>\<open>constexpr vector() noexcept : data_{}\<close>\<close>

definition vector_default :: vector where
  "vector_default = \<lparr>v_data = None, v_size = 0, v_capacity = 0\<rparr>"

text \<open>\<^verbatim>\<open>allocate(capacity)\<close>: \<^verbatim>\<open>capacity_ = capacity; data_ = allocate(allocator_, capacity);\<close>\<close>

definition allocate :: "size_type \<Rightarrow> vector \<Rightarrow> 'a world \<Rightarrow> (unit, vector \<times> 'a world) outcome" where
  "allocate capacity v w =
     (let v1 = v\<lparr>v_capacity := capacity\<rparr> in
      try_catch (allocate_block w capacity)
        (\<lambda>p w1. Ok () (v1\<lparr>v_data := p\<rparr>, w1))
        (\<lambda>e w1. Throw e (v1, w1)))"

text \<open>The loop of \<^verbatim>\<open>construct_init_list\<close>: one copy construction per value, at
  \<^verbatim>\<open>data_ + (index++)\<close>.\<close>

primrec construct_values ::
  "'a list \<Rightarrow> nat option \<Rightarrow> size_type \<Rightarrow> 'a world \<Rightarrow> (unit, 'a world) outcome" where
  "construct_values [] p index w = Ok () w"
| "construct_values (x # xs) p index w =
     try_catch (construct_copy w p index (Some x))
       (\<lambda>_ w1. construct_values xs p (index + 1) w1)
       (\<lambda>e w1. Throw e w1)"

definition construct_init_list ::
  "'a list \<Rightarrow> vector \<Rightarrow> 'a world \<Rightarrow> (unit, vector \<times> 'a world) outcome" where
  "construct_init_list values v w =
     (let v1 = v\<lparr>v_size := of_nat (length values)\<rparr> in
      try_catch (construct_values values (v_data v1) 0 w)
        (\<lambda>_ w1. Ok () (v1, w1))
        (\<lambda>e w1. Throw e (v1, w1)))"

text \<open>\<^verbatim>\<open>vector(init_list_type values, ...)\<close>:
  \<^verbatim>\<open>allocate(values.size()); construct_init_list(values);\<close>\<close>

definition vector_init_list :: "'a list \<Rightarrow> 'a world \<Rightarrow> (unit, vector \<times> 'a world) outcome" where
  "vector_init_list values w =
     try_catch (allocate (of_nat (length values)) vector_default w)
       (\<lambda>_ (v1, w1). construct_init_list values v1 w1)
       (\<lambda>e s. Throw e s)"

text \<open>\<^verbatim>\<open>for (index = start; index < start + n; ++index) destroy(allocator_, p + index);\<close>\<close>

primrec destroy_n :: "nat \<Rightarrow> nat option \<Rightarrow> size_type \<Rightarrow> 'a world \<Rightarrow> 'a world option" where
  "destroy_n 0 p index w = Some w"
| "destroy_n (Suc n) p index w =
     (case destroy w p index of None \<Rightarrow> None | Some w1 \<Rightarrow> destroy_n n p (index + 1) w1)"

text \<open>\<^verbatim>\<open>destruct(size)\<close>: destroys the slots \<open>[0, size)\<close> and sets \<^verbatim>\<open>size_ = 0\<close>.\<close>

definition destruct :: "size_type \<Rightarrow> vector \<Rightarrow> 'a world \<Rightarrow> (unit, vector \<times> 'a world) outcome" where
  "destruct sz v w =
     checked (destroy_n (unat sz) (v_data v) 0 w) (\<lambda>w1. Ok () (v\<lparr>v_size := 0\<rparr>, w1))"

text \<open>\<^verbatim>\<open>clear()\<close>: \<^verbatim>\<open>destruct(size_);\<close>\<close>

definition clear :: "vector \<Rightarrow> 'a world \<Rightarrow> (unit, vector \<times> 'a world) outcome" where
  "clear v w = destruct (v_size v) v w"

subsection \<open>Reallocation\<close>

text \<open>
  \<^verbatim>\<open>deallocate_destruct_keep_size_and_capacity(size, capacity)\<close> destroys the slots
  \<open>[0, size_)\<close>, deallocates \<^verbatim>\<open>data_\<close> with the count \<^verbatim>\<open>capacity_\<close>, and then
  sets \<^verbatim>\<open>capacity_ = capacity; size_ = size;\<close>.
\<close>

definition deallocate_destruct_keep_size_and_capacity ::
  "size_type \<Rightarrow> size_type \<Rightarrow> vector \<Rightarrow> 'a world \<Rightarrow> (unit, vector \<times> 'a world) outcome" where
  "deallocate_destruct_keep_size_and_capacity sz capacity v w =
     checked (destroy_n (unat (v_size v)) (v_data v) 0 w) (\<lambda>w1.
     checked (deallocate_block w1 (v_data v) (v_capacity v)) (\<lambda>w2.
       Ok () (v\<lparr>v_capacity := capacity, v_size := sz\<rparr>, w2)))"

text \<open>
  The two relocation loops of \<^verbatim>\<open>reallocate_strong_guarantee\<close>, \<open>n\<close> iterations
  from \<open>index\<close>: \<^verbatim>\<open>construct(allocator_, temp + index, std::move(data_[index]))\<close>
  and \<^verbatim>\<open>construct(allocator_, temp + index, *(data_ + index)); ++copiesMade;\<close>.
  \<open>copiesMade\<close> starts at 0 with \<open>index\<close> and is incremented with it, so the state
  at a throw carries \<open>index\<close> for it.
\<close>

primrec move_elements ::
  "elem_traits \<Rightarrow> nat \<Rightarrow> nat option \<Rightarrow> nat option \<Rightarrow> size_type \<Rightarrow> 'a world
   \<Rightarrow> (unit, 'a world) outcome" where
  "move_elements T 0 src temp index w = Ok () w"
| "move_elements T (Suc n) src temp index w =
     (case load w src index of
        None \<Rightarrow> Undefined
      | Some c \<Rightarrow>
          try_catch (construct_move T w temp index c)
            (\<lambda>_ w1. move_elements T n src temp (index + 1) w1)
            (\<lambda>e w1. Throw e w1))"

primrec copy_elements ::
  "nat \<Rightarrow> nat option \<Rightarrow> nat option \<Rightarrow> size_type \<Rightarrow> 'a world
   \<Rightarrow> (unit, size_type \<times> 'a world) outcome" where
  "copy_elements 0 src temp index w = Ok () (index, w)"
| "copy_elements (Suc n) src temp index w =
     (case load w src index of
        None \<Rightarrow> Undefined
      | Some c \<Rightarrow>
          try_catch (construct_copy w temp index c)
            (\<lambda>_ w1. copy_elements n src temp (index + 1) w1)
            (\<lambda>e w1. Throw e (index, w1)))"

text \<open>
  \<^verbatim>\<open>reallocate_strong_guarantee(capacity)\<close>.  The new block \<^verbatim>\<open>temp\<close> is
  allocated first.  On the move path an exception leaves the function as it is; on the
  copy path the handler destroys the \<^verbatim>\<open>copiesMade\<close> copies, deallocates
  \<^verbatim>\<open>temp\<close> and rethrows.  Then the old block is released and \<^verbatim>\<open>data_ = temp\<close>.
\<close>

definition reallocate_strong_guarantee ::
  "elem_traits \<Rightarrow> size_type \<Rightarrow> vector \<Rightarrow> 'a world \<Rightarrow> (unit, vector \<times> 'a world) outcome" where
  "reallocate_strong_guarantee T capacity v w =
     try_catch (allocate_block w capacity)
       (\<lambda>temp w1.
          try_catch
            (if is_nothrow_move_constructible T \<or>
                (\<not> is_nothrow_move_constructible T \<and> \<not> is_copy_constructible T)
             then move_elements T (unat (v_size v)) (v_data v) temp 0 w1
             else
               try_catch (copy_elements (unat (v_size v)) (v_data v) temp 0 w1)
                 (\<lambda>_ (copiesMade, w2). Ok () w2)
                 (\<lambda>e (copiesMade, w2).
                    checked (destroy_n (unat copiesMade) temp 0 w2) (\<lambda>w3.
                    checked (deallocate_block w3 temp capacity) (\<lambda>w4.
                      Throw e w4))))
            (\<lambda>_ w2.
               try_catch (deallocate_destruct_keep_size_and_capacity (v_size v) capacity v w2)
                 (\<lambda>_ (v1, w3). Ok () (v1\<lparr>v_data := temp\<rparr>, w3))
                 (\<lambda>e s. Throw e s))
            (\<lambda>e w2. Throw e (v, w2)))
       (\<lambda>e w1. Throw e (v, w1))"

text \<open>\<^verbatim>\<open>reserve(capacity)\<close>\<close>

definition reserve ::
  "elem_traits \<Rightarrow> size_type \<Rightarrow> vector \<Rightarrow> 'a world \<Rightarrow> (unit, vector \<times> 'a world) outcome" where
  "reserve T capacity v w =
     (if capacity > max_size then Throw length_error (v, w)
      else if capacity > v_capacity v then reallocate_strong_guarantee T capacity v w
      else Ok () (v, w))"


subsection \<open>Shifting and constructing\<close>

text \<open>
  \<^verbatim>\<open>insert_end_strong_guarantee(const Type& value)\<close>: constructs at
  \<^verbatim>\<open>data_ + size_\<close>; the handler destroys that slot and rethrows; then
  \<^verbatim>\<open>size_ += 1\<close>.
\<close>

definition insert_end_strong_guarantee ::
  "'a \<Rightarrow> vector \<Rightarrow> 'a world \<Rightarrow> (unit, vector \<times> 'a world) outcome" where
  "insert_end_strong_guarantee val v w =
     try_catch (construct_copy w (v_data v) (v_size v) (Some val))
       (\<lambda>_ w1. Ok () (v\<lparr>v_size := v_size v + 1\<rparr>, w1))
       (\<lambda>e w1. checked (destroy w1 (v_data v) (v_size v)) (\<lambda>w2. Throw e (v, w2)))"

text \<open>
  The loops of \<^verbatim>\<open>shift_and_construct(index_pos, value, count)\<close>, in the order of
  the source.  The first constructs each of the \<open>count\<close> slots from \<open>sz\<close> on from
  its own content:
  \<^verbatim>\<open>construct(allocator_, data_ + size() + index, data_[size() + index]); ++copies_made;\<close>
\<close>

primrec construct_tail ::
  "nat \<Rightarrow> nat option \<Rightarrow> size_type \<Rightarrow> size_type \<Rightarrow> 'a world
   \<Rightarrow> (unit, size_type \<times> 'a world) outcome" where
  "construct_tail 0 p sz index w = Ok () (index, w)"
| "construct_tail (Suc n) p sz index w =
     (case load w p (sz + index) of
        None \<Rightarrow> Undefined
      | Some c \<Rightarrow>
          try_catch (construct_copy w p (sz + index) c)
            (\<lambda>_ w1. construct_tail n p sz (index + 1) w1)
            (\<lambda>e w1. Throw e (index, w1)))"

text \<open>
  The second copies backwards, once for every step of \<^verbatim>\<open>current_pos\<close> up to
  \<^verbatim>\<open>data_ + size()\<close>:
  \<^verbatim>\<open>*(--(count_after_last_element)) = *(--(last_element)); ++copies_made1;\<close>
\<close>

primrec copy_backward_loop ::
  "nat \<Rightarrow> nat option \<Rightarrow> size_type \<Rightarrow> size_type \<Rightarrow> size_type \<Rightarrow> 'a world
   \<Rightarrow> (unit, size_type \<times> 'a world) outcome" where
  "copy_backward_loop 0 p count_after_last_element last_element copies_made1 w =
     Ok () (copies_made1, w)"
| "copy_backward_loop (Suc n) p count_after_last_element last_element copies_made1 w =
     (case load w p (last_element - 1) of
        None \<Rightarrow> Undefined
      | Some c \<Rightarrow>
          try_catch (construct_copy w p (count_after_last_element - 1) c)
            (\<lambda>_ w1. copy_backward_loop n p (count_after_last_element - 1) (last_element - 1)
                       (copies_made1 + 1) w1)
            (\<lambda>e w1. Throw e (copies_made1, w1)))"

text \<open>Its handler:
  \<^verbatim>\<open>while (copies_made1 != 0) { destroy(allocator_, data_ + size() + 1 + copies_made1); --copies_made1; }\<close>\<close>

primrec destroy_down ::
  "nat \<Rightarrow> nat option \<Rightarrow> size_type \<Rightarrow> size_type \<Rightarrow> 'a world \<Rightarrow> 'a world option" where
  "destroy_down 0 p sz copies_made1 w = Some w"
| "destroy_down (Suc n) p sz copies_made1 w =
     (case destroy w p (sz + 1 + copies_made1) of
        None \<Rightarrow> None
      | Some w1 \<Rightarrow> destroy_down n p sz (copies_made1 - 1) w1)"

text \<open>The last constructs the \<open>count\<close> new elements:
  \<^verbatim>\<open>construct(allocator_, data_ + index_pos + index, value); ++copies_made2;\<close>\<close>

primrec construct_fill ::
  "nat \<Rightarrow> nat option \<Rightarrow> size_type \<Rightarrow> size_type \<Rightarrow> 'a \<Rightarrow> 'a world
   \<Rightarrow> (unit, size_type \<times> 'a world) outcome" where
  "construct_fill 0 p index_pos index val w = Ok () (index, w)"
| "construct_fill (Suc n) p index_pos index val w =
     try_catch (construct_copy w p (index_pos + index) (Some val))
       (\<lambda>_ w1. construct_fill n p index_pos (index + 1) val w1)
       (\<lambda>e w1. Throw e (index, w1))"

definition shift_and_construct ::
  "size_type \<Rightarrow> 'a \<Rightarrow> size_type \<Rightarrow> vector \<Rightarrow> 'a world \<Rightarrow> (unit, vector \<times> 'a world) outcome" where
  "shift_and_construct index_pos val count v w =
     (let p = v_data v; sz = size_v v in
      try_catch (construct_tail (unat count) p sz 0 w)
        (\<lambda>_ (copies_made, w1).
           try_catch (copy_backward_loop (unat (sz - index_pos)) p (sz + count) sz 0 w1)
             (\<lambda>_ (copies_made1, w2).
                checked (destroy_n (unat count) p index_pos w2) (\<lambda>w3.
                  try_catch (construct_fill (unat count) p index_pos 0 val w3)
                    (\<lambda>_ (copies_made2, w4). Ok () (v\<lparr>v_size := v_size v + count\<rparr>, w4))
                    (\<lambda>e (copies_made2, w4).
                       checked (destroy_n (unat copies_made2) p sz w4) (\<lambda>w5. Throw e (v, w5)))))
             (\<lambda>e (copies_made1, w2).
                checked (destroy_down (unat copies_made1) p sz copies_made1 w2) (\<lambda>w3.
                  Throw e (v, w3))))
        (\<lambda>e (copies_made, w1).
           checked (destroy_n (unat copies_made) p sz w1) (\<lambda>w2. Throw e (v, w2))))"

text \<open>
  \<^verbatim>\<open>std::move_backward(first, last, d_last)\<close> within the buffer:
  \<^verbatim>\<open>while (first != last) *(--d_last) = std::move(*(--last));\<close>, \<open>n\<close> steps.
\<close>

primrec move_backward ::
  "elem_traits \<Rightarrow> nat \<Rightarrow> nat option \<Rightarrow> size_type \<Rightarrow> size_type \<Rightarrow> 'a world
   \<Rightarrow> (unit, 'a world) outcome" where
  "move_backward T 0 p lst d_last w = Ok () w"
| "move_backward T (Suc n) p lst d_last w =
     (case load w p (lst - 1) of
        None \<Rightarrow> Undefined
      | Some c \<Rightarrow>
          try_catch (construct_move T w p (d_last - 1) c)
            (\<lambda>_ w1. move_backward T n p (lst - 1) (d_last - 1) w1)
            (\<lambda>e w1. Throw e w1))"

text \<open>
  \<^verbatim>\<open>shift_and_construct(size_type index_pos, Type&& value)\<close>: on the move path the
  slot \<^verbatim>\<open>data_ + size()\<close> is constructed from itself, the range
  \<^verbatim>\<open>[data_ + index_pos, data_ + size())\<close> is moved one slot up, the value is
  constructed at \<^verbatim>\<open>data_ + index_pos\<close> and \<^verbatim>\<open>size_ += 1\<close>; otherwise the copying
  overload is called with its default \<^verbatim>\<open>count = 1\<close>.
\<close>

definition shift_and_construct_rv ::
  "elem_traits \<Rightarrow> size_type \<Rightarrow> 'a \<Rightarrow> vector \<Rightarrow> 'a world \<Rightarrow> (unit, vector \<times> 'a world) outcome" where
  "shift_and_construct_rv T index_pos val v w =
     (if is_nothrow_move_constructible T \<or>
         (\<not> is_nothrow_move_constructible T \<and> \<not> is_copy_constructible T)
      then
        (let p = v_data v; sz = size_v v in
         case load w p sz of
           None \<Rightarrow> Undefined
         | Some c \<Rightarrow>
             try_catch (construct_move T w p sz c)
               (\<lambda>_ w1.
                  try_catch (move_backward T (unat (sz - index_pos)) p sz (sz + 1) w1)
                    (\<lambda>_ w2.
                       try_catch (construct_move T w2 p index_pos (Some val))
                         (\<lambda>_ w3. Ok () (v\<lparr>v_size := v_size v + 1\<rparr>, w3))
                         (\<lambda>e w3. Throw e (v, w3)))
                    (\<lambda>e w2. Throw e (v, w2)))
               (\<lambda>e w1. Throw e (v, w1)))
      else shift_and_construct index_pos val 1 v w)"


subsection \<open>Growth, \<^verbatim>\<open>emplace\<close>, \<^verbatim>\<open>push_back\<close>, \<^verbatim>\<open>insert\<close>\<close>

definition realloc_factor :: size_type where
  "realloc_factor = 2"

text \<open>
  The growth loop, written out in \<^verbatim>\<open>emplace\<close> and in both \<^verbatim>\<open>insert\<close>
  overloads with a different bound each:
  \<^verbatim>\<open>do { if (capacity_ == 0) capacity_ = 1; capacity_ *= realloc_factor(); } while (capacity_ < bound);\<close>
  The multiplication wraps, so the loop need not end: \<open>None\<close> says that it does not.
\<close>

partial_function (option) grow_capacity :: "size_type \<Rightarrow> size_type \<Rightarrow> size_type option" where
  "grow_capacity capacity bound =
     (let c1 = (if capacity = 0 then 1 else capacity);
          c2 = c1 * realloc_factor
      in if c2 < bound then grow_capacity c2 bound else Some c2)"

declare grow_capacity.simps [code]

text \<open>
  \<^verbatim>\<open>emplace(const iterator pos, Args&&... args)\<close> as \<^verbatim>\<open>push_back\<close> and
  \<^verbatim>\<open>insert(pos, value)\<close> instantiate it: one argument, an rvalue of \<^verbatim>\<open>Type\<close>.
  The \<^verbatim>\<open>static_assert(pos <= end() ...)\<close> states the contract and runs nothing.
\<close>

definition emplace ::
  "elem_traits \<Rightarrow> iterator \<Rightarrow> 'a \<Rightarrow> vector \<Rightarrow> 'a world
   \<Rightarrow> (iterator, vector \<times> 'a world) outcome" where
  "emplace T pos val v w =
     (let pos_index_position = distance pos (begin_v v) in
      if size_v v + 1 < capacity_v v then
        (if pos = end_v v then
           try_catch (construct_move T w (v_data v) (size_v v) (Some val))
             (\<lambda>_ w1. Ok (ptr_add (v_data v) pos_index_position) (v\<lparr>v_size := v_size v + 1\<rparr>, w1))
             (\<lambda>e w1. checked (destroy w1 (v_data v) (size_v v)) (\<lambda>w2. Throw e (v, w2)))
         else
           try_catch (shift_and_construct_rv T pos_index_position val v w)
             (\<lambda>_ (v1, w1). Ok (ptr_add (v_data v1) pos_index_position) (v1, w1))
             (\<lambda>e s. Throw e s))
      else
        (case grow_capacity (v_capacity v) (1 + size_v v) of
           None \<Rightarrow> Diverge
         | Some c \<Rightarrow>
             (let v1 = v\<lparr>v_capacity := c\<rparr> in
              try_catch (reallocate_strong_guarantee T (v_capacity v1) v1 w)
                (\<lambda>_ (v2, w2).
                   try_catch (shift_and_construct_rv T pos_index_position val v2 w2)
                     (\<lambda>_ (v3, w3). Ok (ptr_add (v_data v3) pos_index_position) (v3, w3))
                     (\<lambda>e s. Throw e s))
                (\<lambda>e s. Throw e s))))"

text \<open>\<^verbatim>\<open>emplace_back\<close>: \<^verbatim>\<open>emplace(end(), ...); return *(data_ + size() - 1);\<close>\<close>

definition emplace_back ::
  "elem_traits \<Rightarrow> 'a \<Rightarrow> vector \<Rightarrow> 'a world \<Rightarrow> (iterator, vector \<times> 'a world) outcome" where
  "emplace_back T val v w =
     try_catch (emplace T (end_v v) val v w)
       (\<lambda>_ (v1, w1). Ok (ptr_add (v_data v1) (size_v v1 - 1)) (v1, w1))
       (\<lambda>e s. Throw e s)"

text \<open>
  \<^verbatim>\<open>push_back(const Type& value)\<close>: \<^verbatim>\<open>emplace_back(value);\<close>.
  \<^verbatim>\<open>emplace_back(Args... args)\<close> takes its arguments by value, so the call copies
  the value once before anything else happens.
\<close>

definition push_back ::
  "elem_traits \<Rightarrow> 'a \<Rightarrow> vector \<Rightarrow> 'a world \<Rightarrow> (unit, vector \<times> 'a world) outcome" where
  "push_back T val v w =
     (case copy_attempt w of
        (False, w1) \<Rightarrow> Throw copy_exception (v, w1)
      | (True, w1) \<Rightarrow>
          try_catch (emplace_back T val v w1) (\<lambda>_ s. Ok () s) (\<lambda>e s. Throw e s))"

text \<open>\<^verbatim>\<open>insert(const iterator pos, size_type count, const_reference value)\<close>\<close>

definition insert_count ::
  "elem_traits \<Rightarrow> iterator \<Rightarrow> size_type \<Rightarrow> 'a \<Rightarrow> vector \<Rightarrow> 'a world
   \<Rightarrow> (iterator, vector \<times> 'a world) outcome" where
  "insert_count T pos count val v w =
     (let pos_index_position = distance pos (begin_v v) in
      try_catch
        (if size_v v + count < capacity_v v then
           (if pos = end_v v then insert_end_strong_guarantee val v w
            else shift_and_construct pos_index_position val count v w)
         else
           (case grow_capacity (v_capacity v) (v_size v) of
              None \<Rightarrow> Diverge
            | Some c \<Rightarrow>
                (let v1 = v\<lparr>v_capacity := c\<rparr> in
                 try_catch (reallocate_strong_guarantee T (v_capacity v1) v1 w)
                   (\<lambda>_ (v2, w2). shift_and_construct pos_index_position val count v2 w2)
                   (\<lambda>e s. Throw e s))))
        (\<lambda>_ (v3, w3).
           Ok (if count = 0 then pos else ptr_add (v_data v3) pos_index_position) (v3, w3))
        (\<lambda>e s. Throw e s))"

subsection \<open>\<^verbatim>\<open>erase(first, last)\<close>\<close>

text \<open>
  \<^verbatim>\<open>std::move(first, last, d_first)\<close> and \<^verbatim>\<open>std::copy(first, last, d_first)\<close>
  within the buffer, \<open>n\<close> steps of \<^verbatim>\<open>*d_first++ = std::move(*first++)\<close> and of
  \<^verbatim>\<open>*d_first++ = *first++\<close>.
\<close>

primrec move_range ::
  "elem_traits \<Rightarrow> nat \<Rightarrow> nat option \<Rightarrow> size_type \<Rightarrow> size_type \<Rightarrow> 'a world
   \<Rightarrow> (unit, 'a world) outcome" where
  "move_range T 0 p fst_i d_first w = Ok () w"
| "move_range T (Suc n) p fst_i d_first w =
     (case load w p fst_i of
        None \<Rightarrow> Undefined
      | Some c \<Rightarrow>
          try_catch (construct_move T w p d_first c)
            (\<lambda>_ w1. move_range T n p (fst_i + 1) (d_first + 1) w1)
            (\<lambda>e w1. Throw e w1))"

primrec copy_range ::
  "nat \<Rightarrow> nat option \<Rightarrow> size_type \<Rightarrow> size_type \<Rightarrow> 'a world \<Rightarrow> (unit, 'a world) outcome" where
  "copy_range 0 p fst_i d_first w = Ok () w"
| "copy_range (Suc n) p fst_i d_first w =
     (case load w p fst_i of
        None \<Rightarrow> Undefined
      | Some c \<Rightarrow>
          try_catch (construct_copy w p d_first c)
            (\<lambda>_ w1. copy_range n p (fst_i + 1) (d_first + 1) w1)
            (\<lambda>e w1. Throw e w1))"

text \<open>
  \<^verbatim>\<open>erase(const iterator first, const iterator last)\<close>.  The three
  \<^verbatim>\<open>static_assert\<close>s state the contract \<^verbatim>\<open>first <= last <= end()\<close> and run
  nothing.  The destroying loop runs from \<^verbatim>\<open>first_position\<close> while
  \<^verbatim>\<open>index < last_position\<close>.
\<close>

definition erase_range ::
  "elem_traits \<Rightarrow> iterator \<Rightarrow> iterator \<Rightarrow> vector \<Rightarrow> 'a world
   \<Rightarrow> (iterator, vector \<times> 'a world) outcome" where
  "erase_range T first_it last_it v w =
     (let last_equals_end = (last_it = end_v v);
          first_position = distance first_it (begin_v v);
          last_position = distance last_it (begin_v v);
          difference = last_position - first_position;
          p = v_data v
      in
      checked (destroy_n (if first_position < last_position
                          then unat (last_position - first_position) else 0)
                 p first_position w) (\<lambda>w1.
        try_catch
          (if is_nothrow_move_constructible T
           then move_range T (unat (size_v v - last_position)) p last_position first_position w1
           else copy_range (unat (size_v v - last_position)) p last_position first_position w1)
          (\<lambda>_ w2.
             Ok (if last_equals_end then ptr_add p last_position else ptr_add p first_position)
                (v\<lparr>v_size := v_size v - difference\<rparr>, w2))
          (\<lambda>e w2. Throw e (v, w2))))"

subsection \<open>Comparison operators\<close>

text \<open>
  \<^verbatim>\<open>std::equal\<close> and \<^verbatim>\<open>std::lexicographical_compare\<close> on the two element
  ranges; \<open>None\<close> is a read outside a block.
\<close>

primrec equal_n ::
  "nat \<Rightarrow> nat option \<Rightarrow> nat option \<Rightarrow> size_type \<Rightarrow> 'a world \<Rightarrow> bool option" where
  "equal_n 0 p q i w = Some True"
| "equal_n (Suc n) p q i w =
     (case (load w p i, load w q i) of
        (Some (Some x), Some (Some y)) \<Rightarrow>
          if x = y then equal_n n p q (i + 1) w else Some False
      | _ \<Rightarrow> None)"

text \<open>\<^verbatim>\<open>first.size_ == second.size_ && std::equal(...)\<close>\<close>

definition operator_eq :: "vector \<Rightarrow> vector \<Rightarrow> 'a world \<Rightarrow> bool option" where
  "operator_eq a b w =
     (if v_size a = v_size b then equal_n (unat (size_v a)) (v_data a) (v_data b) 0 w
      else Some False)"

fun lexicographical_compare ::
  "nat \<Rightarrow> nat \<Rightarrow> nat option \<Rightarrow> nat option \<Rightarrow> size_type \<Rightarrow> ('a::ord) world \<Rightarrow> bool option" where
  "lexicographical_compare (Suc n) (Suc m) p q i w =
     (case (load w p i, load w q i) of
        (Some (Some x), Some (Some y)) \<Rightarrow>
          if x < y then Some True
          else if y < x then Some False
          else lexicographical_compare n m p q (i + 1) w
      | _ \<Rightarrow> None)"
| "lexicographical_compare n m p q i w = Some (n = 0 \<and> m \<noteq> 0)"

definition operator_less :: "vector \<Rightarrow> vector \<Rightarrow> ('a::ord) world \<Rightarrow> bool option" where
  "operator_less a b w =
     lexicographical_compare (unat (size_v a)) (unat (size_v b)) (v_data a) (v_data b) 0 w"

text \<open>
  The other four operators are written through one another:
  \<^verbatim>\<open>operator!=\<close> returns \<^verbatim>\<open>*this != other\<close>, \<^verbatim>\<open>operator>=\<close> returns
  \<^verbatim>\<open>*this >= other\<close>, \<^verbatim>\<open>operator>\<close> returns \<^verbatim>\<open>*this >= other\<close> and
  \<^verbatim>\<open>operator<=\<close> returns \<^verbatim>\<open>other >= *this\<close>.  \<open>None\<close> says that the call does
  not return.
\<close>

partial_function (option) operator_ne :: "vector \<Rightarrow> vector \<Rightarrow> 'a world \<Rightarrow> bool option" where
  "operator_ne a b w = operator_ne a b w"

partial_function (option) operator_ge :: "vector \<Rightarrow> vector \<Rightarrow> 'a world \<Rightarrow> bool option" where
  "operator_ge a b w = operator_ge a b w"

definition operator_gt :: "vector \<Rightarrow> vector \<Rightarrow> 'a world \<Rightarrow> bool option" where
  "operator_gt a b w = operator_ge a b w"

definition operator_le :: "vector \<Rightarrow> vector \<Rightarrow> 'a world \<Rightarrow> bool option" where
  "operator_le a b w = operator_ge b a w"


subsection \<open>The class invariant and the states of the examples\<close>

text \<open>
  The invariant of the data model: without a buffer the vector is empty and has no
  capacity; with a buffer, the buffer is an allocated block of \<^verbatim>\<open>capacity_\<close> slots
  and \<^verbatim>\<open>size_ <= capacity_\<close>.
\<close>

definition vector_ok :: "vector \<Rightarrow> 'a world \<Rightarrow> bool" where
  "vector_ok v w =
     (case v_data v of
        None \<Rightarrow> v_size v = 0 \<and> v_capacity v = 0
      | Some a \<Rightarrow>
          (case blocks w a of
             None \<Rightarrow> False
           | Some cs \<Rightarrow> length cs = unat (v_capacity v) \<and> v_size v \<le> v_capacity v))"

text \<open>A memory with nothing allocated, in which no copy throws.\<close>

definition empty_world :: "'a world" where
  "empty_world =
     \<lparr>blocks = (\<lambda>_. None), next_addr = 0, leaked = 0, copy_fuse = None, alloc_limit = 1000\<rparr>"

text \<open>The traits of \<^verbatim>\<open>int\<close>, and of a class whose copy constructor may throw and that
  has no \<^verbatim>\<open>noexcept\<close> move constructor.\<close>

definition int_traits :: elem_traits where
  "int_traits = \<lparr>is_nothrow_move_constructible = True, is_copy_constructible = True\<rparr>"

definition throwing_copy_traits :: elem_traits where
  "throwing_copy_traits = \<lparr>is_nothrow_move_constructible = False, is_copy_constructible = True\<rparr>"

section \<open>Evaluation of the model\<close>

lemma unat_minus_one_64: "unat (- 1 :: 64 word) = 18446744073709551615"
proof -
  have "(- 1 :: 64 word) = 18446744073709551615" by simp
  then show ?thesis by (simp only: unat_numeral) simp
qed

lemma grow_capacity_examples:
  "grow_capacity 0 1 = Some 2"
  "grow_capacity 2 2 = Some 4"
  "grow_capacity 0 0 = Some 2"
  "grow_capacity 1 1 = Some 2"
  "grow_capacity 3 3 = Some 6"
  by (subst grow_capacity.simps, simp add: realloc_factor_def)+

lemma loops_numeral:
  "destroy_n (numeral k) p i w = destroy_n (Suc (pred_numeral k)) p i w"
  "move_elements T (numeral k) src temp i w = move_elements T (Suc (pred_numeral k)) src temp i w"
  "copy_elements (numeral k) src temp i w = copy_elements (Suc (pred_numeral k)) src temp i w"
  "construct_tail (numeral k) p sz i w = construct_tail (Suc (pred_numeral k)) p sz i w"
  "copy_backward_loop (numeral k) p ca le cm w =
     copy_backward_loop (Suc (pred_numeral k)) p ca le cm w"
  "destroy_down (numeral k) p sz cm w = destroy_down (Suc (pred_numeral k)) p sz cm w"
  "construct_fill (numeral k) p ip i x w = construct_fill (Suc (pred_numeral k)) p ip i x w"
  "move_backward T (numeral k) p l d w = move_backward T (Suc (pred_numeral k)) p l d w"
  "move_range T (numeral k) p f d w = move_range T (Suc (pred_numeral k)) p f d w"
  "copy_range (numeral k) p f d w = copy_range (Suc (pred_numeral k)) p f d w"
  "equal_n (numeral k) p q i w = equal_n (Suc (pred_numeral k)) p q i w"
  "replicate (numeral k) x = x # replicate (pred_numeral k) x"
  by (simp_all only: numeral_eq_Suc replicate.simps)

lemmas loop_steps =
  loops_numeral [unfolded destroy_n.simps move_elements.simps copy_elements.simps
    construct_tail.simps copy_backward_loop.simps destroy_down.simps construct_fill.simps
    move_backward.simps move_range.simps copy_range.simps equal_n.simps]

lemmas prims =
  allocate_block_def deallocate_block_def load_def store_def copy_attempt_def
  construct_copy_def construct_move_def destroy_def try_catch_def checked_def ptr_add_def
  distance_def begin_v_def end_v_def size_v_def capacity_v_def Let_def loop_steps
  unat_minus_one_64

lemmas ops =
  push_back_def emplace_back_def emplace_def shift_and_construct_rv_def
  reallocate_strong_guarantee_def deallocate_destruct_keep_size_and_capacity_def
  vector_default_def empty_world_def int_traits_def throwing_copy_traits_def reserve_def
  max_size_def insert_count_def shift_and_construct_def erase_range_def clear_def
  destruct_def vector_init_list_def allocate_def construct_init_list_def
  insert_end_strong_guarantee_def grow_capacity_examples

text \<open>The initializer-list constructor on \<open>{1, 2, 9}\<close>, and the first
  \<^verbatim>\<open>push_back\<close> on an empty vector.\<close>

lemma vector_init_list_1_2_9:
  "vector_init_list [1, 2, 9 :: int] empty_world =
     Ok () (\<lparr>v_data = Some 0, v_size = 3, v_capacity = 3\<rparr>,
            \<lparr>blocks = (\<lambda>_. None)(0 \<mapsto> [Some 1, Some 2, Some 9]), next_addr = 1,
               leaked = 0, copy_fuse = None, alloc_limit = 1000\<rparr>)"
  by (simp add: ops prims)

lemma push_back_first:
  "push_back int_traits (7 :: int) vector_default empty_world =
     Ok () (\<lparr>v_data = Some 0, v_size = 1, v_capacity = 2\<rparr>,
            \<lparr>blocks = (\<lambda>_. None)(0 \<mapsto> [Some 7, None]), next_addr = 1,
               leaked = 0, copy_fuse = None, alloc_limit = 1000\<rparr>)"
  by (simp add: ops prims)


section \<open>\<^verbatim>\<open>data()\<close> and \<^verbatim>\<open>at()\<close>\<close>

text \<open>
  C10.  For every vector, \<^verbatim>\<open>data()\<close> returns the null pointer whenever
  \<^verbatim>\<open>size() == 0\<close>, also when a buffer of nonzero capacity is allocated, and returns
  the pointer to the first element of the buffer whenever \<^verbatim>\<open>size() != 0\<close>.
\<close>

theorem data_null_iff_empty:
  "(size_v v = 0 \<longrightarrow> data_v v = None) \<and> (size_v v \<noteq> 0 \<longrightarrow> data_v v = v_data v)"
  by (simp add: data_v_def)

text \<open>
  The two cases at work: after \<^verbatim>\<open>reserve(4)\<close> the empty vector owns a block of four
  slots and \<^verbatim>\<open>data()\<close> is null; the vector \<open>{1, 2, 9}\<close> has \<^verbatim>\<open>data()\<close> equal
  to its buffer.
\<close>

theorem data_null_iff_empty_witness:
  "reserve int_traits 4 vector_default (empty_world :: int world) =
     Ok () (\<lparr>v_data = Some 0, v_size = 0, v_capacity = 4\<rparr>,
            \<lparr>blocks = (\<lambda>_. None)(0 \<mapsto> [None, None, None, None]), next_addr = 1,
               leaked = 0, copy_fuse = None, alloc_limit = 1000\<rparr>)
   \<and> data_v \<lparr>v_data = Some 0, v_size = 0, v_capacity = 4\<rparr> = None
   \<and> data_v \<lparr>v_data = Some 0, v_size = 3, v_capacity = 3\<rparr> = Some 0"
  using data_null_iff_empty [of "\<lparr>v_data = Some 0, v_size = 0, v_capacity = 4\<rparr>"]
    data_null_iff_empty [of "\<lparr>v_data = Some 0, v_size = 3, v_capacity = 3\<rparr>"]
  by (simp add: ops prims)

text \<open>
  C8.  For every vector that satisfies the class invariant and every index, the checked
  access \<^verbatim>\<open>at(index)\<close> returns the reference to element \<open>index\<close> when
  \<^verbatim>\<open>index < size()\<close> (the reference reads the element at that place of the element
  sequence) and throws \<^verbatim>\<open>std::out_of_range\<close> when \<^verbatim>\<open>index >= size()\<close>; in both
  cases the vector (size, capacity, buffer) and the memory (the contents) are the ones
  before the call.
\<close>

theorem at_checked_access:
  assumes "vector_ok v w"
  shows "(index < size_v v \<longrightarrow>
            at index v w = Ok (ptr_add (v_data v) index) (v, w) \<and>
            deref w (ptr_add (v_data v) index) = Some (elements v w ! unat index))
       \<and> (size_v v \<le> index \<longrightarrow> at index v w = Throw out_of_range (v, w))"
proof (intro conjI impI)
  assume lt: "index < size_v v"
  show "at index v w = Ok (ptr_add (v_data v) index) (v, w)"
    using lt by (simp add: at_def)
  from lt have sz: "v_size v \<noteq> 0" by (auto simp: size_v_def)
  with assms obtain a cs where a: "v_data v = Some a" and cs: "blocks w a = Some cs"
    and len: "length cs = unat (v_capacity v)" and le: "v_size v \<le> v_capacity v"
    by (auto simp: vector_ok_def split: option.splits)
  from lt have "unat index < unat (v_size v)" by (simp add: size_v_def word_less_nat_alt)
  moreover from le have "unat (v_size v) \<le> length cs" by (simp add: len word_le_nat_alt)
  ultimately show "deref w (ptr_add (v_data v) index) = Some (elements v w ! unat index)"
    by (simp add: deref_def ptr_add_def load_def elements_def a cs)
next
  assume "size_v v \<le> index"
  then show "at index v w = Throw out_of_range (v, w)"
    by (simp add: at_def not_less)
qed

text \<open>On the vector \<open>{1, 2, 9}\<close>: \<^verbatim>\<open>at(1)\<close> refers to the element 2, and
  \<^verbatim>\<open>at(3)\<close> throws.\<close>

theorem at_checked_access_witness:
  "vector_ok \<lparr>v_data = Some 0, v_size = 3, v_capacity = 3\<rparr>
     \<lparr>blocks = (\<lambda>_. None)(0 \<mapsto> [Some 1, Some 2, Some (9 :: int)]), next_addr = 1,
        leaked = 0, copy_fuse = None, alloc_limit = 1000\<rparr>
   \<and> at 1 \<lparr>v_data = Some 0, v_size = 3, v_capacity = 3\<rparr>
        \<lparr>blocks = (\<lambda>_. None)(0 \<mapsto> [Some 1, Some 2, Some (9 :: int)]), next_addr = 1,
           leaked = 0, copy_fuse = None, alloc_limit = 1000\<rparr>
      = Ok (Iter (Some 0) 1)
          (\<lparr>v_data = Some 0, v_size = 3, v_capacity = 3\<rparr>,
           \<lparr>blocks = (\<lambda>_. None)(0 \<mapsto> [Some 1, Some 2, Some 9]), next_addr = 1,
              leaked = 0, copy_fuse = None, alloc_limit = 1000\<rparr>)
   \<and> deref \<lparr>blocks = (\<lambda>_. None)(0 \<mapsto> [Some 1, Some 2, Some (9 :: int)]), next_addr = 1,
              leaked = 0, copy_fuse = None, alloc_limit = 1000\<rparr> (Iter (Some 0) 1)
      = Some (Some 2)
   \<and> at 3 \<lparr>v_data = Some 0, v_size = 3, v_capacity = 3\<rparr>
        \<lparr>blocks = (\<lambda>_. None)(0 \<mapsto> [Some 1, Some 2, Some (9 :: int)]), next_addr = 1,
           leaked = 0, copy_fuse = None, alloc_limit = 1000\<rparr>
      = Throw out_of_range
          (\<lparr>v_data = Some 0, v_size = 3, v_capacity = 3\<rparr>,
           \<lparr>blocks = (\<lambda>_. None)(0 \<mapsto> [Some 1, Some 2, Some 9]), next_addr = 1,
              leaked = 0, copy_fuse = None, alloc_limit = 1000\<rparr>)"
proof -
  let ?v = "\<lparr>v_data = Some 0, v_size = 3, v_capacity = 3\<rparr>"
  let ?w = "\<lparr>blocks = (\<lambda>_. None)(0 \<mapsto> [Some 1, Some 2, Some (9 :: int)]), next_addr = 1,
              leaked = 0, copy_fuse = None, alloc_limit = 1000\<rparr>"
  have ok: "vector_ok ?v ?w" by (simp add: vector_ok_def)
  show ?thesis
    using ok at_checked_access [OF ok, of 1] at_checked_access [OF ok, of 3]
    by (simp add: size_v_def ptr_add_def elements_def)
qed

section \<open>The comparison operators\<close>

lemma operator_ne_no_result: "operator_ne a b w = Some r \<Longrightarrow> False"
  by (rule operator_ne.raw_induct [where P = "\<lambda>_ _ _ _. False"])

lemma operator_ge_no_result: "operator_ge a b w = Some r \<Longrightarrow> False"
  by (rule operator_ge.raw_induct [where P = "\<lambda>_ _ _ _. False"])

lemma operator_ne_None: "operator_ne a b w = None"
  using operator_ne_no_result [of a b w] by (cases "operator_ne a b w") auto

lemma operator_ge_None: "operator_ge a b w = None"
  using operator_ge_no_result [of a b w] by (cases "operator_ge a b w") auto

text \<open>
  C7.  The claim says that \<^verbatim>\<open>a != b\<close>, \<^verbatim>\<open>a > b\<close>, \<^verbatim>\<open>a >= b\<close> and
  \<^verbatim>\<open>a <= b\<close> terminate and decide the lexicographic order.  In the source each of
  them ends in a call of itself (\<^verbatim>\<open>operator!=\<close>) or of \<^verbatim>\<open>operator>=\<close>, which calls
  itself: for every pair of vectors none of the four returns.
\<close>

theorem comparison_operators_never_return:
  "operator_ne a b w = None \<and> operator_ge a b w = None \<and>
   operator_gt a b w = None \<and> operator_le a b w = None"
  by (simp add: operator_ne_None operator_ge_None operator_gt_def operator_le_def)


section \<open>The strong guarantee of \<^verbatim>\<open>reallocate_strong_guarantee\<close>\<close>

lemma load_in_block:
  "blocks w a = Some cs \<Longrightarrow> unat i < length cs \<Longrightarrow> load w (Some a) i = Some (cs ! unat i)"
  by (simp add: load_def)

lemma store_in_block:
  "blocks w t = Some ts \<Longrightarrow> unat i < length ts \<Longrightarrow>
   store w (Some t) i c = Some (w\<lparr>blocks := (blocks w)(t \<mapsto> ts[unat i := c])\<rparr>)"
  by (simp add: store_def)

lemma unat_succ:
  fixes i :: size_type
  assumes "unat i + 1 < 2 ^ 64"
  shows "unat (i + 1) = unat i + 1"
  using assms by (simp add: unat_word_ariths)

lemma copy_elements_throws:
  assumes "copy_fuse w = Some k" and "k < n"
    and "blocks w a = Some cs" and "blocks w t = Some ts" and "a \<noteq> t"
    and "unat index + n \<le> length cs" and "unat index + n \<le> length ts"
    and "length ts < 2 ^ 64"
  shows "\<exists>ts'. copy_elements n (Some a) (Some t) index w =
            Throw copy_exception
              (index + of_nat k, w\<lparr>blocks := (blocks w)(t \<mapsto> ts'), copy_fuse := None\<rparr>)
          \<and> length ts' = length ts
          \<and> (\<forall>j. unat index + k \<le> j \<longrightarrow> ts' ! j = ts ! j)"
  using assms
proof (induction n arbitrary: index w ts k)
  case 0
  then show ?case by simp
next
  case (Suc n)
  from Suc.prems have ld: "load w (Some a) index = Some (cs ! unat index)"
    by (intro load_in_block) auto
  show ?case
  proof (cases k)
    case 0
    have b: "(blocks w)(t \<mapsto> ts) = blocks w"
      using Suc.prems(4) by (rule fun_upd_idem)
    have run: "copy_elements (Suc n) (Some a) (Some t) index w =
        Throw copy_exception (index, w\<lparr>copy_fuse := None\<rparr>)"
      using Suc.prems(1) 0 ld
      by (simp add: construct_copy_def copy_attempt_def try_catch_def)
    show ?thesis
      unfolding run by (rule exI[of _ ts]) (simp add: b 0)
  next
    case (Suc k')
    define ts2 where "ts2 = ts[unat index := cs ! unat index]"
    define w2 where "w2 = w\<lparr>copy_fuse := Some k', blocks := (blocks w)(t \<mapsto> ts2)\<rparr>"
    have idx: "unat (index + 1) = unat index + 1"
      using Suc.prems(7,8) by (intro unat_succ) simp
    have step: "copy_elements (Suc n) (Some a) (Some t) index w =
        copy_elements n (Some a) (Some t) (index + 1) w2"
      using Suc.prems Suc ld
      by (simp add: construct_copy_def copy_attempt_def try_catch_def store_def w2_def ts2_def)
    have "\<exists>ts'. copy_elements n (Some a) (Some t) (index + 1) w2 =
            Throw copy_exception
              (index + 1 + of_nat k', w2\<lparr>blocks := (blocks w2)(t \<mapsto> ts'), copy_fuse := None\<rparr>)
          \<and> length ts' = length ts2
          \<and> (\<forall>j. unat (index + 1) + k' \<le> j \<longrightarrow> ts' ! j = ts2 ! j)"
      using Suc.prems Suc idx
      by (intro Suc.IH) (simp_all add: w2_def ts2_def)
    then obtain ts' where
      r: "copy_elements n (Some a) (Some t) (index + 1) w2 =
            Throw copy_exception
              (index + 1 + of_nat k', w2\<lparr>blocks := (blocks w2)(t \<mapsto> ts'), copy_fuse := None\<rparr>)"
      and l: "length ts' = length ts2"
      and e: "\<forall>j. unat (index + 1) + k' \<le> j \<longrightarrow> ts' ! j = ts2 ! j"
      by blast
    have "copy_elements (Suc n) (Some a) (Some t) index w =
            Throw copy_exception
              (index + of_nat k, w\<lparr>blocks := (blocks w)(t \<mapsto> ts'), copy_fuse := None\<rparr>)"
      using r step Suc by (simp add: w2_def add.assoc)
    moreover have "length ts' = length ts" using l by (simp add: ts2_def)
    moreover have "\<forall>j. unat index + k \<le> j \<longrightarrow> ts' ! j = ts ! j"
      using e idx Suc by (simp add: ts2_def)
    ultimately show ?thesis by blast
  qed
qed

lemma destroy_n_resets:
  assumes "blocks w t = Some ts" and "unat index + k \<le> length ts" and "length ts < 2 ^ 64"
  shows "\<exists>ts'. destroy_n k (Some t) index w = Some (w\<lparr>blocks := (blocks w)(t \<mapsto> ts')\<rparr>)
          \<and> length ts' = length ts
          \<and> (\<forall>j < length ts. ts' ! j =
                (if unat index \<le> j \<and> j < unat index + k then None else ts ! j))"
  using assms
proof (induction k arbitrary: index w ts)
  case 0
  have b: "(blocks w)(t \<mapsto> ts) = blocks w"
    using 0(1) by (rule fun_upd_idem)
  show ?case
    by (rule exI[of _ ts]) (auto simp: b)
next
  case (Suc k)
  define ts2 where "ts2 = ts[unat index := None]"
  define w2 where "w2 = w\<lparr>blocks := (blocks w)(t \<mapsto> ts2)\<rparr>"
  have idx: "unat (index + 1) = unat index + 1"
    using Suc.prems by (intro unat_succ) simp
  have step: "destroy_n (Suc k) (Some t) index w = destroy_n k (Some t) (index + 1) w2"
    using Suc.prems by (simp add: destroy_def store_def w2_def ts2_def)
  have "\<exists>ts'. destroy_n k (Some t) (index + 1) w2 = Some (w2\<lparr>blocks := (blocks w2)(t \<mapsto> ts')\<rparr>)
          \<and> length ts' = length ts2
          \<and> (\<forall>j < length ts2. ts' ! j =
                (if unat (index + 1) \<le> j \<and> j < unat (index + 1) + k then None else ts2 ! j))"
    using Suc.prems idx by (intro Suc.IH) (simp_all add: w2_def ts2_def)
  then obtain ts' where
    r: "destroy_n k (Some t) (index + 1) w2 = Some (w2\<lparr>blocks := (blocks w2)(t \<mapsto> ts')\<rparr>)"
    and l: "length ts' = length ts2"
    and e: "\<forall>j < length ts2. ts' ! j =
       (if unat (index + 1) \<le> j \<and> j < unat (index + 1) + k then None else ts2 ! j)"
    by blast
  have "destroy_n (Suc k) (Some t) index w = Some (w\<lparr>blocks := (blocks w)(t \<mapsto> ts')\<rparr>)"
    using r step by (simp add: w2_def)
  moreover have "length ts' = length ts" using l by (simp add: ts2_def)
  moreover have "\<forall>j < length ts. ts' ! j =
       (if unat index \<le> j \<and> j < unat index + Suc k then None else ts ! j)"
  proof (intro allI impI)
    fix j assume j: "j < length ts"
    then have "ts' ! j = (if unat (index + 1) \<le> j \<and> j < unat (index + 1) + k then None else ts2 ! j)"
      using e by (simp add: ts2_def)
    then show "ts' ! j = (if unat index \<le> j \<and> j < unat index + Suc k then None else ts ! j)"
      using j idx by (auto simp: ts2_def nth_list_update)
  qed
  ultimately show ?case by blast
qed

text \<open>
  The function on its own, called on a vector whose members are untouched, as
  \<^verbatim>\<open>reserve\<close>, \<^verbatim>\<open>resize\<close> and \<^verbatim>\<open>shrink_to_fit\<close> call it.  Let the element type
  take the copy path (copy-constructible, not no-throw-move-constructible), let the
  vector satisfy the class invariant, let the requested capacity exceed the current one
  and be allocatable, and let the copy constructor throw on its \<open>(k+1)\<close>-th invocation,
  with \<open>k < size()\<close>.  Then \<^verbatim>\<open>reallocate_strong_guarantee\<close> leaves by that
  exception; the vector has the data pointer, size and capacity it had before the call;
  the allocated blocks and their contents are the ones before the call, so the old buffer
  is untouched and the new block is deallocated; and no object was alive in storage that
  was given back (\<open>leaked\<close> is unchanged), so each of the \<open>k\<close> copies was destroyed
  first.  Only the address counter and the fuse have moved.
\<close>

lemma reallocate_copy_failure_members_untouched:
  assumes copy_path: "\<not> is_nothrow_move_constructible T" "is_copy_constructible T"
    and ok: "vector_ok v w"
    and fresh: "blocks w (next_addr w) = None"
    and grow: "v_capacity v < capacity"
    and room: "unat capacity \<le> alloc_limit w"
    and fuse: "copy_fuse w = Some k"
    and k: "k < unat (v_size v)"
  shows "reallocate_strong_guarantee T capacity v w =
           Throw copy_exception (v, w\<lparr>next_addr := Suc (next_addr w), copy_fuse := None\<rparr>)"
proof -
  from k have "v_size v \<noteq> 0" by (auto simp: unat_eq_0)
  with ok obtain a cs where a: "v_data v = Some a" and cs: "blocks w a = Some cs"
    and len: "length cs = unat (v_capacity v)" and le: "v_size v \<le> v_capacity v"
    by (auto simp: vector_ok_def split: option.splits)
  define t where "t = next_addr w"
  define N where "N = unat capacity"
  define w1 where "w1 = w\<lparr>blocks := (blocks w)(t \<mapsto> replicate N None), next_addr := Suc t\<rparr>"
  have at: "a \<noteq> t" using cs fresh by (auto simp: t_def)
  have alloc: "allocate_block w capacity = Ok (Some t) w1"
    using room by (simp add: allocate_block_def w1_def t_def N_def)
  have szN: "unat (v_size v) \<le> N"
    using le grow by (simp add: N_def word_le_nat_alt word_less_nat_alt)
  have szcs: "unat (v_size v) \<le> length cs"
    using le by (simp add: len word_le_nat_alt)
  have Nlt: "N < 2 ^ 64"
    using unsigned_less [of capacity, where ?'a = nat] by (simp add: N_def)
  have "\<exists>ts'. copy_elements (unat (v_size v)) (Some a) (Some t) 0 w1 =
            Throw copy_exception
              (0 + of_nat k, w1\<lparr>blocks := (blocks w1)(t \<mapsto> ts'), copy_fuse := None\<rparr>)
          \<and> length ts' = length (replicate N (None :: 'a option))
          \<and> (\<forall>j. unat (0 :: size_type) + k \<le> j \<longrightarrow> ts' ! j = replicate N (None :: 'a option) ! j)"
    using fuse k cs at szN szcs Nlt
    by (intro copy_elements_throws) (simp_all add: w1_def)
  then obtain ts' where
    cp: "copy_elements (unat (v_size v)) (Some a) (Some t) 0 w1 =
            Throw copy_exception
              (of_nat k, w1\<lparr>blocks := (blocks w1)(t \<mapsto> ts'), copy_fuse := None\<rparr>)"
    and l1: "length ts' = N"
    and e1: "\<forall>j. k \<le> j \<longrightarrow> j < N \<longrightarrow> ts' ! j = None"
    by auto
  define w2 where "w2 = w1\<lparr>blocks := (blocks w1)(t \<mapsto> ts'), copy_fuse := None\<rparr>"
  have kN: "k \<le> N" using k szN by simp
  have uk: "unat (of_nat k :: size_type) = k"
    using kN Nlt by (simp add: unat_of_nat)
  have "\<exists>ts''. destroy_n k (Some t) 0 w2 = Some (w2\<lparr>blocks := (blocks w2)(t \<mapsto> ts'')\<rparr>)
          \<and> length ts'' = length ts'
          \<and> (\<forall>j < length ts'. ts'' ! j =
                (if unat (0 :: size_type) \<le> j \<and> j < unat (0 :: size_type) + k then None else ts' ! j))"
    using kN Nlt l1 by (intro destroy_n_resets) (simp_all add: w2_def)
  then obtain ts'' where
    ds: "destroy_n k (Some t) 0 w2 = Some (w2\<lparr>blocks := (blocks w2)(t \<mapsto> ts'')\<rparr>)"
    and l2: "length ts'' = N"
    and e2: "\<forall>j < N. ts'' ! j = (if j < k then None else ts' ! j)"
    using l1 by auto
  have all_raw: "ts'' = replicate N None"
    using l2 e1 e2 by (auto simp: list_eq_iff_nth_eq)
  define w3 where "w3 = w2\<lparr>blocks := (blocks w2)(t \<mapsto> ts'')\<rparr>"
  have dealloc: "deallocate_block w3 (Some t) capacity =
      Some (w\<lparr>next_addr := Suc (next_addr w), copy_fuse := None\<rparr>)"
    using fresh by (simp add: deallocate_block_def w3_def w2_def w1_def all_raw t_def fun_upd_idem)
  show ?thesis
    using copy_path alloc cp ds dealloc a uk
    by (simp add: reallocate_strong_guarantee_def try_catch_def checked_def w2_def[symmetric] w3_def[symmetric])
qed


text \<open>
  The vector \<open>{1, 2, 9}\<close> of a type with a throwing copy constructor, reallocated to
  capacity 6 when the second copy throws.
\<close>

lemma reallocate_copy_failure_example:
  "reallocate_strong_guarantee throwing_copy_traits 6
     \<lparr>v_data = Some 0, v_size = 3, v_capacity = 3\<rparr>
     \<lparr>blocks = (\<lambda>_. None)(0 \<mapsto> [Some 1, Some 2, Some (9 :: int)]), next_addr = 1,
        leaked = 0, copy_fuse = Some 1, alloc_limit = 1000\<rparr>
   = Throw copy_exception
       (\<lparr>v_data = Some 0, v_size = 3, v_capacity = 3\<rparr>,
        \<lparr>blocks = (\<lambda>_. None)(0 \<mapsto> [Some 1, Some 2, Some 9]), next_addr = 2,
           leaked = 0, copy_fuse = None, alloc_limit = 1000\<rparr>)"
  using reallocate_copy_failure_members_untouched
    [of throwing_copy_traits "\<lparr>v_data = Some 0, v_size = 3, v_capacity = 3\<rparr>"
        "\<lparr>blocks = (\<lambda>_. None)(0 \<mapsto> [Some 1, Some 2, Some (9 :: int)]), next_addr = 1,
           leaked = 0, copy_fuse = Some 1, alloc_limit = 1000\<rparr>" 6 1]
  by (simp add: throwing_copy_traits_def vector_ok_def)

text \<open>
  C1.  The claim says that when a copy throws during a capacity-increasing reallocation
  on the copy path, the copies are destroyed, the new block is deallocated, the exception
  is rethrown, and size, capacity and contents are the ones before the call.  Take the
  full vector \<open>{1, 2, 9}\<close> (capacity 3) of a type with a throwing copy constructor, and
  let the second copy throw.  \<^verbatim>\<open>reserve(6)\<close> leaves by the exception with the vector as
  it was.  \<^verbatim>\<open>insert(begin(), 1, 4)\<close> runs its growth loop on the member
  \<^verbatim>\<open>capacity_\<close> before it calls \<^verbatim>\<open>reallocate_strong_guarantee(capacity_)\<close>: the
  reallocation undoes its own work and rethrows, and the vector is left with capacity 6
  over its old block of 3 slots.  (\<^verbatim>\<open>emplace\<close> and \<^verbatim>\<open>insert(pos, init_list)\<close> run
  the same loop before the same call.)
\<close>

theorem insert_copy_failure_leaves_capacity_grown:
  "reserve throwing_copy_traits 6 \<lparr>v_data = Some 0, v_size = 3, v_capacity = 3\<rparr>
     \<lparr>blocks = (\<lambda>_. None)(0 \<mapsto> [Some 1, Some 2, Some (9 :: int)]), next_addr = 1,
        leaked = 0, copy_fuse = Some 1, alloc_limit = 1000\<rparr>
   = Throw copy_exception
       (\<lparr>v_data = Some 0, v_size = 3, v_capacity = 3\<rparr>,
        \<lparr>blocks = (\<lambda>_. None)(0 \<mapsto> [Some 1, Some 2, Some 9]), next_addr = 2,
           leaked = 0, copy_fuse = None, alloc_limit = 1000\<rparr>)
   \<and> insert_count throwing_copy_traits
        (begin_v \<lparr>v_data = Some 0, v_size = 3, v_capacity = 3\<rparr>) 1 (4 :: int)
        \<lparr>v_data = Some 0, v_size = 3, v_capacity = 3\<rparr>
        \<lparr>blocks = (\<lambda>_. None)(0 \<mapsto> [Some 1, Some 2, Some 9]), next_addr = 1,
           leaked = 0, copy_fuse = Some 1, alloc_limit = 1000\<rparr>
   = Throw copy_exception
       (\<lparr>v_data = Some 0, v_size = 3, v_capacity = 6\<rparr>,
        \<lparr>blocks = (\<lambda>_. None)(0 \<mapsto> [Some 1, Some 2, Some 9]), next_addr = 2,
           leaked = 0, copy_fuse = None, alloc_limit = 1000\<rparr>)
   \<and> capacity_v \<lparr>v_data = Some 0, v_size = 3, v_capacity = 6\<rparr> \<noteq>
       capacity_v \<lparr>v_data = Some 0, v_size = 3, v_capacity = 3\<rparr>"
  by (simp add: ops prims)

section \<open>Insertion: offsets, growth and reallocation\<close>

text \<open>
  C2.  The claim says that \<open>N\<close> calls of \<^verbatim>\<open>push_back\<close> on a default-constructed
  vector leave the \<open>N\<close> values in order.  With \<open>N = 2\<close>: the first call returns with
  the vector \<open>{7}\<close> of capacity 2.  In the second, \<^verbatim>\<open>std::distance(pos, begin())\<close>
  for \<^verbatim>\<open>pos = end()\<close> is \<open>begin() - end() = -1\<close>, stored as the \<^verbatim>\<open>size_type\<close>
  \<open>2^64 - 1\<close>; \<^verbatim>\<open>size() + 1 < capacity()\<close> is false, so the vector is reallocated
  (to the block 1 of 4 slots) and \<^verbatim>\<open>shift_and_construct\<close> is called with that offset:
  it moves the range from \<^verbatim>\<open>data_ + index_pos\<close> to \<^verbatim>\<open>data_ + size()\<close>, reading the
  slot before the block.  Called with the offset 1 of \<^verbatim>\<open>end()\<close>, the same function
  appends the value.
\<close>

theorem push_back_twice_leaves_the_block:
  "push_back int_traits (7 :: int) vector_default empty_world =
     Ok () (\<lparr>v_data = Some 0, v_size = 1, v_capacity = 2\<rparr>,
            \<lparr>blocks = (\<lambda>_. None)(0 \<mapsto> [Some 7, None]), next_addr = 1,
               leaked = 0, copy_fuse = None, alloc_limit = 1000\<rparr>)
   \<and> distance (end_v \<lparr>v_data = Some 0, v_size = 1, v_capacity = 2\<rparr>)
        (begin_v \<lparr>v_data = Some 0, v_size = 1, v_capacity = 2\<rparr>) = - 1
   \<and> reallocate_strong_guarantee int_traits 4 \<lparr>v_data = Some 0, v_size = 1, v_capacity = 4\<rparr>
        \<lparr>blocks = (\<lambda>_. None)(0 \<mapsto> [Some (7 :: int), None]), next_addr = 1,
           leaked = 0, copy_fuse = None, alloc_limit = 1000\<rparr> =
     Ok () (\<lparr>v_data = Some 1, v_size = 1, v_capacity = 4\<rparr>,
            \<lparr>blocks = (\<lambda>_. None)(1 \<mapsto> [Some 7, None, None, None]), next_addr = 2,
               leaked = 0, copy_fuse = None, alloc_limit = 1000\<rparr>)
   \<and> shift_and_construct_rv int_traits (- 1) (5 :: int)
        \<lparr>v_data = Some 1, v_size = 1, v_capacity = 4\<rparr>
        \<lparr>blocks = (\<lambda>_. None)(1 \<mapsto> [Some 7, None, None, None]), next_addr = 2,
           leaked = 0, copy_fuse = None, alloc_limit = 1000\<rparr> = Undefined
   \<and> shift_and_construct_rv int_traits 1 (5 :: int)
        \<lparr>v_data = Some 1, v_size = 1, v_capacity = 4\<rparr>
        \<lparr>blocks = (\<lambda>_. None)(1 \<mapsto> [Some 7, None, None, None]), next_addr = 2,
           leaked = 0, copy_fuse = None, alloc_limit = 1000\<rparr> =
     Ok () (\<lparr>v_data = Some 1, v_size = 2, v_capacity = 4\<rparr>,
            \<lparr>blocks = (\<lambda>_. None)(1 \<mapsto> [Some 7, Some 5, None, None]), next_addr = 2,
               leaked = 0, copy_fuse = None, alloc_limit = 1000\<rparr>)
   \<and> push_back int_traits (5 :: int) \<lparr>v_data = Some 0, v_size = 1, v_capacity = 2\<rparr>
        \<lparr>blocks = (\<lambda>_. None)(0 \<mapsto> [Some 7, None]), next_addr = 1,
           leaked = 0, copy_fuse = None, alloc_limit = 1000\<rparr> = Undefined"
  by (simp add: push_back_first) (simp add: ops prims fun_upd_twist)

text \<open>
  C3.  The claim says that every operation keeps \<^verbatim>\<open>size <= capacity\<close>, in particular
  \<^verbatim>\<open>insert(pos, count, value)\<close>.  On the empty vector with \<open>count = 5\<close> the growth
  loop stops at capacity 2 (its bound is \<^verbatim>\<open>size_\<close>, without \<open>count\<close>), the vector
  is reallocated to 2 slots, and \<^verbatim>\<open>shift_and_construct\<close> is called to put 5 elements
  into them: it constructs slots outside the block, on the way to
  \<^verbatim>\<open>size_ += count\<close>, that is \<open>size_ = 5\<close> with \<open>capacity_ = 2\<close>.
\<close>

theorem insert_count_overruns_capacity:
  "reallocate_strong_guarantee int_traits 2 (vector_default\<lparr>v_capacity := 2\<rparr>)
       (empty_world :: int world) =
     Ok () (\<lparr>v_data = Some 0, v_size = 0, v_capacity = 2\<rparr>,
            \<lparr>blocks = (\<lambda>_. None)(0 \<mapsto> [None, None]), next_addr = 1,
               leaked = 0, copy_fuse = None, alloc_limit = 1000\<rparr>)
   \<and> shift_and_construct 0 (9 :: int) 5 \<lparr>v_data = Some 0, v_size = 0, v_capacity = 2\<rparr>
        \<lparr>blocks = (\<lambda>_. None)(0 \<mapsto> [None, None]), next_addr = 1,
           leaked = 0, copy_fuse = None, alloc_limit = 1000\<rparr> = Undefined
   \<and> insert_count int_traits (begin_v vector_default) 5 (9 :: int) vector_default empty_world
       = Undefined"
  by (simp add: ops prims)

text \<open>
  The path of \<^verbatim>\<open>push_back\<close> without reallocation: when no copy throws and
  \<open>size + 1 < capacity\<close>, the value is constructed at the end of the same buffer, and
  the invariant is kept.
\<close>

lemma push_back_without_reallocation:
  assumes ok: "vector_ok v w" and fuse: "copy_fuse w = None"
    and room: "unat (v_size v) + 1 < unat (v_capacity v)"
  shows "\<exists>a cs. v_data v = Some a \<and> blocks w a = Some cs \<and>
           push_back T x v w =
             Ok () (v\<lparr>v_size := v_size v + 1\<rparr>,
                    w\<lparr>blocks := (blocks w)(a \<mapsto> cs[unat (v_size v) := Some x])\<rparr>)
         \<and> vector_ok (v\<lparr>v_size := v_size v + 1\<rparr>)
              (w\<lparr>blocks := (blocks w)(a \<mapsto> cs[unat (v_size v) := Some x])\<rparr>)
         \<and> elements (v\<lparr>v_size := v_size v + 1\<rparr>)
              (w\<lparr>blocks := (blocks w)(a \<mapsto> cs[unat (v_size v) := Some x])\<rparr>)
            = elements v w @ [Some x]"
proof -
  from room have "v_capacity v \<noteq> 0" by (auto simp: unat_eq_0)
  with ok obtain a cs where a: "v_data v = Some a" and cs: "blocks w a = Some cs"
    and len: "length cs = unat (v_capacity v)"
    by (auto simp: vector_ok_def split: option.splits)
  have lim: "unat (v_capacity v) < 2 ^ 64"
    using unsigned_less [of "v_capacity v", where ?'a = nat] by simp
  have suc: "unat (v_size v + 1) = unat (v_size v) + 1"
    using room lim by (intro unat_succ) simp
  have cond: "v_size v + 1 < v_capacity v"
    using room suc by (simp add: word_less_nat_alt)
  have inb: "unat (v_size v) < length cs"
    using room len by simp
  have run: "push_back T x v w =
      Ok () (v\<lparr>v_size := v_size v + 1\<rparr>,
             w\<lparr>blocks := (blocks w)(a \<mapsto> cs[unat (v_size v) := Some x])\<rparr>)"
    using fuse cond inb a cs
    by (simp add: push_back_def emplace_back_def emplace_def copy_attempt_def construct_move_def
        construct_copy_def store_def try_catch_def size_v_def capacity_v_def end_v_def Let_def)
  have ok': "vector_ok (v\<lparr>v_size := v_size v + 1\<rparr>)
      (w\<lparr>blocks := (blocks w)(a \<mapsto> cs[unat (v_size v) := Some x])\<rparr>)"
    using a len cond by (simp add: vector_ok_def)
  have el: "elements (v\<lparr>v_size := v_size v + 1\<rparr>)
      (w\<lparr>blocks := (blocks w)(a \<mapsto> cs[unat (v_size v) := Some x])\<rparr>) = elements v w @ [Some x]"
    using a cs inb suc by (simp add: elements_def take_Suc_conv_app_nth)
  show ?thesis using a cs run ok' el by blast
qed

text \<open>
  C4.  The claim says that after \<^verbatim>\<open>reserve(n)\<close> insertions up to \<open>n\<close> elements
  do not reallocate.  With \<open>n = 1\<close>: \<^verbatim>\<open>reserve(1)\<close> gives the empty vector the
  block 0 of one slot; the one \<^verbatim>\<open>push_back\<close> that follows finds
  \<^verbatim>\<open>size() + 1 < capacity()\<close> false, reallocates, and returns with capacity 2 and the
  buffer at the new block 1.
\<close>

theorem reserve_then_push_back_reallocates:
  "reserve int_traits 1 vector_default (empty_world :: int world) =
     Ok () (\<lparr>v_data = Some 0, v_size = 0, v_capacity = 1\<rparr>,
            \<lparr>blocks = (\<lambda>_. None)(0 \<mapsto> [None]), next_addr = 1,
               leaked = 0, copy_fuse = None, alloc_limit = 1000\<rparr>)
   \<and> push_back int_traits (5 :: int) \<lparr>v_data = Some 0, v_size = 0, v_capacity = 1\<rparr>
        \<lparr>blocks = (\<lambda>_. None)(0 \<mapsto> [None]), next_addr = 1,
           leaked = 0, copy_fuse = None, alloc_limit = 1000\<rparr> =
     Ok () (\<lparr>v_data = Some 1, v_size = 1, v_capacity = 2\<rparr>,
            \<lparr>blocks = (\<lambda>_. None)(1 \<mapsto> [Some 5, None]), next_addr = 2,
               leaked = 0, copy_fuse = None, alloc_limit = 1000\<rparr>)"
  by (simp add: ops prims fun_upd_twist)

text \<open>The growth loop stops at a capacity that is not below the bound it was given.\<close>

lemma grow_capacity_reaches_bound: "grow_capacity c b = Some c' \<Longrightarrow> b \<le> c'"
proof (rule grow_capacity.raw_induct [where P = "\<lambda>c b c'. b \<le> c'"])
  fix f and c b y :: size_type
  assume ih: "\<And>c b y. f c b = Some y \<Longrightarrow> b \<le> y"
    and run: "(let c1 = (if c = 0 then 1 else c); c2 = c1 * realloc_factor
               in if c2 < b then f c2 b else Some c2) = Some y"
  show "b \<le> y"
  proof (cases "(if c = 0 then 1 else c) * realloc_factor < b")
    case True
    with run have "f ((if c = 0 then 1 else c) * realloc_factor) b = Some y"
      by (simp add: Let_def)
    then show ?thesis by (rule ih)
  next
    case False
    with run show ?thesis by (simp add: Let_def not_less)
  qed
qed

text \<open>
  C5.  The claim says that a growing insertion gets a capacity of at least the required
  minimum, the size plus the number of inserted elements.  The loop of
  \<^verbatim>\<open>insert(pos, count, value)\<close> runs \<^verbatim>\<open>while (capacity_ < size_)\<close>: on the empty
  vector it yields 2 whatever \<open>count\<close> is, below the 5 slots that \<open>count = 5\<close> needs.
\<close>

theorem insert_count_growth_below_required_minimum:
  "grow_capacity (v_capacity vector_default) (v_size vector_default) = Some 2
   \<and> (2 :: size_type) < size_v vector_default + 5"
  by (simp add: vector_default_def size_v_def grow_capacity_examples)

section \<open>\<^verbatim>\<open>erase(first, last)\<close>\<close>

text \<open>
  C6.  The claim says that \<^verbatim>\<open>erase(first, last)\<close> removes the range and shifts the
  tail left.  On \<open>{1, 2, 9}\<close> with \<^verbatim>\<open>first = begin() + 1\<close> and
  \<^verbatim>\<open>last = begin() + 2\<close>: \<^verbatim>\<open>std::distance(first, begin())\<close> is \<open>-1\<close> and
  \<^verbatim>\<open>std::distance(last, begin())\<close> is \<open>-2\<close>, so nothing is destroyed and the move
  starts at the slot \<^verbatim>\<open>data_ + last_position\<close>, two slots before the block.
\<close>

theorem erase_range_leaves_the_block:
  "distance (Iter (Some 0) 1) (begin_v \<lparr>v_data = Some 0, v_size = 3, v_capacity = 3\<rparr>) = - 1
   \<and> distance (Iter (Some 0) 2) (begin_v \<lparr>v_data = Some 0, v_size = 3, v_capacity = 3\<rparr>) = - 2
   \<and> erase_range int_traits (Iter (Some 0) 1) (Iter (Some 0) 2)
        \<lparr>v_data = Some 0, v_size = 3, v_capacity = 3\<rparr>
        \<lparr>blocks = (\<lambda>_. None)(0 \<mapsto> [Some 1, Some 2, Some (9 :: int)]), next_addr = 1,
           leaked = 0, copy_fuse = None, alloc_limit = 1000\<rparr> = Undefined"
  by (simp add: ops prims)

section \<open>\<^verbatim>\<open>clear()\<close>\<close>

text \<open>
  \<^verbatim>\<open>clear()\<close> on a vector that satisfies the class invariant returns with size 0, the
  same buffer and capacity, and every slot that held an element destroyed.
\<close>

lemma clear_destroys_and_keeps_buffer:
  assumes "vector_ok v w"
  shows "\<exists>w'. clear v w = Ok () (v\<lparr>v_size := 0\<rparr>, w')
          \<and> vector_ok (v\<lparr>v_size := 0\<rparr>) w'
          \<and> (\<forall>c \<in> set (elements v w'). c = None)"
proof (cases "v_data v")
  case None
  with assms have "v_size v = 0" by (simp add: vector_ok_def)
  with None assms show ?thesis
    by (intro exI[of _ w]) (simp add: clear_def destruct_def checked_def vector_ok_def elements_def)
next
  case (Some a)
  with assms obtain cs where cs: "blocks w a = Some cs"
    and len: "length cs = unat (v_capacity v)" and le: "v_size v \<le> v_capacity v"
    by (auto simp: vector_ok_def split: option.splits)
  have szcs: "unat (v_size v) \<le> length cs"
    using le by (simp add: len word_le_nat_alt)
  have lt: "length cs < 2 ^ 64"
    using unsigned_less [of "v_capacity v", where ?'a = nat] by (simp add: len)
  have "\<exists>ts'. destroy_n (unat (v_size v)) (Some a) 0 w = Some (w\<lparr>blocks := (blocks w)(a \<mapsto> ts')\<rparr>)
          \<and> length ts' = length cs
          \<and> (\<forall>j < length cs. ts' ! j =
                (if unat (0 :: size_type) \<le> j \<and> j < unat (0 :: size_type) + unat (v_size v)
                 then None else cs ! j))"
    using cs szcs lt by (intro destroy_n_resets) simp_all
  then obtain ts' where
    ds: "destroy_n (unat (v_size v)) (Some a) 0 w = Some (w\<lparr>blocks := (blocks w)(a \<mapsto> ts')\<rparr>)"
    and l: "length ts' = length cs"
    and e: "\<forall>j < length cs. ts' ! j = (if j < unat (v_size v) then None else cs ! j)"
    by auto
  have "\<forall>c \<in> set (take (unat (v_size v)) ts'). c = None"
    using e l szcs by (auto simp: in_set_conv_nth)
  then show ?thesis
    using Some ds l len le
    by (intro exI[of _ "w\<lparr>blocks := (blocks w)(a \<mapsto> ts')\<rparr>"])
       (simp add: clear_def destruct_def checked_def vector_ok_def elements_def)
qed

text \<open>
  C9.  The claim says that after the construction from a non-empty initializer list and
  \<^verbatim>\<open>clear()\<close> a \<^verbatim>\<open>push_back\<close> does not reallocate.  With the list \<open>{7}\<close>:
  the constructor allocates one slot, \<^verbatim>\<open>clear()\<close> destroys the element and keeps
  capacity 1 and the buffer, and \<^verbatim>\<open>push_back(42)\<close> finds
  \<^verbatim>\<open>size() + 1 < capacity()\<close> false, reallocates, and returns with capacity 2 and the
  buffer at the new block 1.
\<close>

theorem clear_then_push_back_reallocates:
  "vector_init_list [7 :: int] empty_world =
     Ok () (\<lparr>v_data = Some 0, v_size = 1, v_capacity = 1\<rparr>,
            \<lparr>blocks = (\<lambda>_. None)(0 \<mapsto> [Some 7]), next_addr = 1,
               leaked = 0, copy_fuse = None, alloc_limit = 1000\<rparr>)
   \<and> clear \<lparr>v_data = Some 0, v_size = 1, v_capacity = 1\<rparr>
        \<lparr>blocks = (\<lambda>_. None)(0 \<mapsto> [Some (7 :: int)]), next_addr = 1,
           leaked = 0, copy_fuse = None, alloc_limit = 1000\<rparr> =
     Ok () (\<lparr>v_data = Some 0, v_size = 0, v_capacity = 1\<rparr>,
            \<lparr>blocks = (\<lambda>_. None)(0 \<mapsto> [None]), next_addr = 1,
               leaked = 0, copy_fuse = None, alloc_limit = 1000\<rparr>)
   \<and> push_back int_traits (42 :: int) \<lparr>v_data = Some 0, v_size = 0, v_capacity = 1\<rparr>
        \<lparr>blocks = (\<lambda>_. None)(0 \<mapsto> [None]), next_addr = 1,
           leaked = 0, copy_fuse = None, alloc_limit = 1000\<rparr> =
     Ok () (\<lparr>v_data = Some 1, v_size = 1, v_capacity = 2\<rparr>,
            \<lparr>blocks = (\<lambda>_. None)(1 \<mapsto> [Some 42, None]), next_addr = 2,
               leaked = 0, copy_fuse = None, alloc_limit = 1000\<rparr>)"
  by (simp add: ops prims fun_upd_twist)

end
